theory Spec2Isabelle
  imports Main "HOL-Library.AList"
begin

section \<open>Data exchanged with the outside\<close>

text \<open>
  \<^verbatim>\<open>type Tokens = { accessToken: string; tokenType: string; expiresIn: number; refreshToken: string }\<close>
  and \<^verbatim>\<open>type Me = { first_name: string }\<close> of \<^verbatim>\<open>main.ts\<close>.
\<close>

record Tokens =
  accessToken :: string
  tokenType :: string
  expiresIn :: int
  refreshToken :: string

record Me =
  first_name :: string

text \<open>
  \<^verbatim>\<open>type Status = { last_emptied: string; last_cleaned: string }\<close>. The handler of
  \<^verbatim>\<open>/api/status/:key\<close> treats the record as an object with computed keys
  (\<^verbatim>\<open>Object.keys\<close>, \<^verbatim>\<open>{...currentStatus, [key]: v}\<close>), so it is a list of
  properties in insertion order.
\<close>

type_synonym Status = "(string \<times> string) list"

text \<open>
  What a \<^verbatim>\<open>throw\<close> or a rejected promise carries: the \<^verbatim>\<open>SyntaxError\<close> of
  \<^verbatim>\<open>JSON.parse\<close>, \<^verbatim>\<open>new Error(msg)\<close>, the rejection of \<^verbatim>\<open>fetch\<close>, an error of
  the OAuth2 client, a \<^verbatim>\<open>Deno.errors\<close> value other than \<^verbatim>\<open>NotFound\<close>, and the
  \<^verbatim>\<open>TypeError\<close> of \<^verbatim>\<open>ctx.cookies.set\<close> on a value it refuses.
\<close>

datatype exn = SyntaxError | Error string | FetchError | OAuthError | IOError | TypeError

text \<open>
  A piece of text that the program hands to \<^verbatim>\<open>JSON.parse\<close> (the cookie value, the
  status file, the body of the provider's answer) is represented by what \<^verbatim>\<open>JSON.parse\<close>
  makes of it: either it is not JSON, or it is the JSON of a value. The value has the
  type that the source's annotation (\<^verbatim>\<open>Promise<Tokens | undefined>\<close>, \<^verbatim>\<open>as Status\<close>,
  \<^verbatim>\<open>as Me\<close>) gives it. \<^verbatim>\<open>JSON.stringify\<close> of such a value, with or without
  indentation, is a text that parses back to it.
\<close>

datatype 'a json_text = Malformed | Json 'a

definition JSON_parse :: "'a json_text \<Rightarrow> exn + 'a" where
  "JSON_parse t = (case t of Malformed \<Rightarrow> Inl SyntaxError | Json v \<Rightarrow> Inr v)"

definition JSON_stringify :: "'a \<Rightarrow> 'a json_text" where
  "JSON_stringify v = Json v"

text \<open>
  The outcome of \<^verbatim>\<open>fetch(url, ...)\<close>: the promise rejects (no answer from the network),
  or there is a response with a status code and a body.
\<close>

datatype http_result = Rejected | Response nat "Me json_text"

text \<open>The outbound calls to the identity provider, in the order they were made.\<close>

datatype call =
    FetchProfile string
  | RefreshToken string
  | GetToken string string

text \<open>\<^verbatim>\<open>ctx.response\<close>: the fields the handlers assign. \<^verbatim>\<open>None\<close> is "never assigned".\<close>

datatype body = Message string | MeBody Me | StatusBody Status

record response =
  status :: "nat option"
  body :: "body option"
  location :: "string option"

definition no_response :: response where
  "no_response = \<lparr>status = None, body = None, location = None\<rparr>"

text \<open>
  \<^verbatim>\<open>/data/status.json\<close> as \<^verbatim>\<open>Deno.readTextFile\<close> finds it: missing
  (\<^verbatim>\<open>Deno.errors.NotFound\<close>), failing with another error, or holding a text.
\<close>

datatype status_file = NotFound | Unreadable | Content "Status json_text"

text \<open>
  What \<^verbatim>\<open>ctx.cookies.set("tokens", value, ...)\<close> and \<^verbatim>\<open>ctx.cookies.delete("tokens")\<close> add
  to the response: a \<^verbatim>\<open>Set-Cookie\<close> header with the value, or one that expires the
  cookie.
\<close>

datatype cookie_write = SetCookie "Tokens json_text" | DeleteCookie

section \<open>The state a request runs in\<close>

text \<open>
  Everything a handler reads or changes. \<^verbatim>\<open>ctx.cookies\<close> has two sides:
  \<^verbatim>\<open>ctx.cookies.get("tokens")\<close> reads the \<^verbatim>\<open>Cookie\<close> header of the request, which is
  \<open>tokens_cookie\<close> and stays what the browser sent for the whole request;
  \<^verbatim>\<open>set\<close> and \<^verbatim>\<open>delete\<close> append \<^verbatim>\<open>Set-Cookie\<close> headers to the response, which is
  \<open>set_cookie\<close>, in the order they were written. A \<^verbatim>\<open>get\<close> after a \<^verbatim>\<open>set\<close> in the same
  request therefore returns the old value. The rest is the \<^verbatim>\<open>codeVerifier\<close> flashed into
  the session, the status file, the fields of the response, the outbound calls made so
  far and the number of times the clock has been read.
\<close>

record state =
  tokens_cookie :: "Tokens json_text option"
  set_cookie :: "cookie_write list"
  codeVerifier :: "string option"
  status_json :: status_file
  response :: response
  calls :: "call list"
  clock_reads :: nat

text \<open>
  The outside world, which the program only calls: the provider's profile endpoint, the
  OAuth2 client's \<^verbatim>\<open>refreshToken.refresh\<close>, \<^verbatim>\<open>code.getToken\<close> and
  \<^verbatim>\<open>code.getAuthorizationUri\<close>, the clock behind \<^verbatim>\<open>new Date()\<close>, and the framework's
  check of a cookie value (\<^verbatim>\<open>ctx.cookies.set\<close> throws on a value that cannot stand in a
  header). An answer of the provider may depend on the calls made before it;
  \<^verbatim>\<open>now n\<close> is the \<open>n\<close>-th reading of the clock, as \<^verbatim>\<open>toISOString()\<close> prints it.
\<close>

record env =
  profiles_me :: "call list \<Rightarrow> string \<Rightarrow> http_result"
  refresh :: "call list \<Rightarrow> string \<Rightarrow> exn + Tokens"
  getToken :: "call list \<Rightarrow> string \<Rightarrow> string \<Rightarrow> exn + Tokens"
  getAuthorizationUri :: "string \<times> string"
  now :: "nat \<Rightarrow> string"
  cookie_refused :: "Tokens json_text \<Rightarrow> bool"

text \<open>
  An \<^verbatim>\<open>async\<close> function: from a state to a returned value or a thrown exception, and
  the state it leaves. \<open>await m f\<close> is \<^verbatim>\<open>const x = await m; f(x)\<close>: an exception of
  \<open>m\<close> ends the whole computation.
\<close>

type_synonym 'a async = "state \<Rightarrow> (exn + 'a) \<times> state"

definition returns :: "'a \<Rightarrow> 'a async" where
  "returns a s = (Inr a, s)"

definition throw :: "exn \<Rightarrow> 'a async" where
  "throw e s = (Inl e, s)"

definition await :: "'a async \<Rightarrow> ('a \<Rightarrow> 'b async) \<Rightarrow> 'b async" where
  "await m f s = (case m s of (Inl e, s') \<Rightarrow> (Inl e, s') | (Inr a, s') \<Rightarrow> f a s')"

section \<open>Token store: the \<^verbatim>\<open>cookies\<close> object\<close>

text \<open>
  \<^verbatim>\<open>setTokens\<close> returns what \<^verbatim>\<open>ctx.cookies.set\<close> returns, the cookie map, which is
  truthy (\<open>True\<close>).
\<close>

definition setTokens :: "env \<Rightarrow> Tokens \<Rightarrow> bool async" where
  "setTokens E tokens s =
     (if cookie_refused E (JSON_stringify tokens) then (Inl TypeError, s)
      else (Inr True, s\<lparr>set_cookie := set_cookie s @ [SetCookie (JSON_stringify tokens)]\<rparr>))"

definition getTokens :: "(Tokens option) async" where
  "getTokens s =
     (case tokens_cookie s of
        None \<Rightarrow> (Inr None, s)
      | Some cookies \<Rightarrow>
          (case JSON_parse cookies of
             Inl e \<Rightarrow> (Inl e, s)
           | Inr v \<Rightarrow> (Inr (Some v), s)))"

text \<open>
  \<^verbatim>\<open>try { newTokens = await refresh(refreshToken); return await this.setTokens(ctx, newTokens) }
  catch (error) { return false }\<close>: the \<^verbatim>\<open>catch\<close> covers the provider call and the
  write.
\<close>

definition refreshTokens :: "env \<Rightarrow> string \<Rightarrow> bool async" where
  "refreshTokens E rt s =
     (let s1 = s\<lparr>calls := calls s @ [RefreshToken rt]\<rparr> in
      case refresh E (calls s) rt of
        Inl error \<Rightarrow> (Inr False, s1)
      | Inr newTokens \<Rightarrow>
          (case setTokens E newTokens s1 of
             (Inl error, s2) \<Rightarrow> (Inr False, s2)
           | (Inr r, s2) \<Rightarrow> (Inr r, s2)))"

definition deleteTokens :: "unit async" where
  "deleteTokens s = (Inr (), s\<lparr>set_cookie := set_cookie s @ [DeleteCookie]\<rparr>)"

section \<open>Status record store: the \<^verbatim>\<open>status\<close> object\<close>

text \<open>
  \<^verbatim>\<open>status.read\<close>. The \<^verbatim>\<open>try\<close> covers the read and \<^verbatim>\<open>JSON.parse\<close>; the
  \<^verbatim>\<open>catch\<close> rethrows everything but \<^verbatim>\<open>NotFound\<close>. On \<^verbatim>\<open>NotFound\<close> the two fields
  are two \<^verbatim>\<open>new Date()\<close>, so two readings of the clock; \<^verbatim>\<open>Deno.mkdir\<close> and
  \<^verbatim>\<open>Deno.writeTextFile\<close> are taken to succeed.
\<close>

definition status_read :: "env \<Rightarrow> Status async" where
  "status_read E s =
     (case status_json s of
        Content data \<Rightarrow>
          (case JSON_parse data of
             Inl error \<Rightarrow> (Inl error, s)
           | Inr v \<Rightarrow> (Inr v, s))
      | Unreadable \<Rightarrow> (Inl IOError, s)
      | NotFound \<Rightarrow>
          (let st = [(''last_emptied'', now E (clock_reads s)),
                     (''last_cleaned'', now E (clock_reads s + 1))]
           in (Inr st, s\<lparr>clock_reads := clock_reads s + 2,
                          status_json := Content (JSON_stringify st)\<rparr>)))"

definition status_write :: "Status \<Rightarrow> unit async" where
  "status_write data s = (Inr (), s\<lparr>status_json := Content (JSON_stringify data)\<rparr>)"

section \<open>Identity verifier and \<^verbatim>\<open>getName\<close>\<close>

text \<open>
  \<^verbatim>\<open>fetchRcApi\<close>: one call to the profile endpoint with the token as bearer credential.
  Status 200 gives \<^verbatim>\<open>{ first_name: json.first_name }\<close> (\<open>Some\<close>), any other status
  gives \<^verbatim>\<open>false\<close> (\<open>None\<close>). Nothing catches a rejected \<^verbatim>\<open>fetch\<close> or a body that is not
  JSON.
\<close>

definition fetchRcApi :: "env \<Rightarrow> string \<Rightarrow> (Me option) async" where
  "fetchRcApi E token s =
     (let s1 = s\<lparr>calls := calls s @ [FetchProfile token]\<rparr> in
      case profiles_me E (calls s) token of
        Rejected \<Rightarrow> (Inl FetchError, s1)
      | Response code text \<Rightarrow>
          if code = 200 then
            (case JSON_parse text of
               Inl e \<Rightarrow> (Inl e, s1)
             | Inr json \<Rightarrow> (Inr (Some \<lparr>first_name = first_name json\<rparr>), s1))
          else (Inr None, s1))"

definition respond :: "nat \<Rightarrow> string \<Rightarrow> state \<Rightarrow> state" where
  "respond code msg s =
     s\<lparr>response := (response s)\<lparr>status := Some code, body := Some (Message msg)\<rparr>\<rparr>"

text \<open>
  \<^verbatim>\<open>getName\<close>. \<open>None\<close> is the \<^verbatim>\<open>false\<close> it returns. Inside the block of
  \<^verbatim>\<open>if (name === false)\<close> the source declares a second \<^verbatim>\<open>const name\<close>, which is
  \<open>name2\<close> here; the \<^verbatim>\<open>return name\<close> after the block is outside its scope and returns
  the first one.
\<close>

definition getName :: "env \<Rightarrow> (Me option) async" where
  "getName E =
     await getTokens (\<lambda>tokens.
       case tokens of
         None \<Rightarrow> (\<lambda>s. (Inr None, respond 401 ''not logged in'' s))
       | Some tokens \<Rightarrow>
           await (fetchRcApi E (accessToken tokens)) (\<lambda>name.
             if name = None then
               await (refreshTokens E (refreshToken tokens)) (\<lambda>_.
                 await getTokens (\<lambda>newTokens.
                   case newTokens of
                     None \<Rightarrow>
                       await deleteTokens (\<lambda>_ s.
                         (Inr None, respond 401 ''invalid session'' s))
                   | Some newTokens \<Rightarrow>
                       await (fetchRcApi E (accessToken newTokens)) (\<lambda>name2.
                         if name2 = None then
                           await deleteTokens (\<lambda>_ s.
                             (Inr None, respond 401 ''invalid session'' s))
                         else returns name)))
             else returns name))"

section \<open>The routes\<close>

text \<open>
  \<^verbatim>\<open>ctx.response.redirect(url)\<close> is recorded as the target it was given; the framework
  makes the redirect response from it.
\<close>

definition redirect :: "string \<Rightarrow> unit async" where
  "redirect url s = (Inr (), s\<lparr>response := (response s)\<lparr>location := Some url\<rparr>\<rparr>)"

definition set_status :: "nat \<Rightarrow> unit async" where
  "set_status code s = (Inr (), s\<lparr>response := (response s)\<lparr>status := Some code\<rparr>\<rparr>)"

definition set_body :: "body \<Rightarrow> unit async" where
  "set_body b s = (Inr (), s\<lparr>response := (response s)\<lparr>body := Some b\<rparr>\<rparr>)"

text \<open>\<^verbatim>\<open>GET /api/login\<close>: the verifier is flashed into the session.\<close>

definition api_login :: "env \<Rightarrow> unit async" where
  "api_login E s =
     (case getAuthorizationUri E of
        (uri, verifier) \<Rightarrow> redirect uri (s\<lparr>codeVerifier := Some verifier\<rparr>))"

definition api_logout :: "unit async" where
  "api_logout = await deleteTokens (\<lambda>_ s. redirect ''/'' (s\<lparr>codeVerifier := None\<rparr>))"

text \<open>
  \<^verbatim>\<open>GET /api/callback\<close>. A flashed session value is gone once it has been read.
  \<^verbatim>\<open>oauth2Client.code.getToken\<close> is awaited with no \<^verbatim>\<open>try\<close> around it.
\<close>

definition api_callback :: "env \<Rightarrow> string \<Rightarrow> unit async" where
  "api_callback E url s =
     (let s1 = s\<lparr>codeVerifier := None\<rparr> in
      case codeVerifier s of
        None \<Rightarrow> throw (Error ''invalid codeVerifier'') s1
      | Some verifier \<Rightarrow>
          (let s2 = s1\<lparr>calls := calls s1 @ [GetToken url verifier]\<rparr> in
           case getToken E (calls s1) url verifier of
             Inl e \<Rightarrow> (Inl e, s2)
           | Inr tokens \<Rightarrow> await (setTokens E tokens) (\<lambda>_. redirect ''/'') s2))"

text \<open>\<^verbatim>\<open>GET /api/me\<close>\<close>

definition api_me :: "env \<Rightarrow> unit async" where
  "api_me E =
     await (getName E) (\<lambda>me.
       case me of
         None \<Rightarrow> returns ()
       | Some m \<Rightarrow> set_body (MeBody m))"

text \<open>\<^verbatim>\<open>GET /api/status\<close>\<close>

definition api_status :: "env \<Rightarrow> unit async" where
  "api_status E = await (status_read E) (\<lambda>st. set_body (StatusBody st))"

text \<open>
  The value every update writes:
  \<^verbatim>\<open>new Date("2026-01-29T15:32:41.000Z").toISOString()\<close>.
\<close>

definition update_timestamp :: string where
  "update_timestamp = ''2026-01-29T15:32:41.000Z''"

definition Object_keys :: "Status \<Rightarrow> string list" where
  "Object_keys obj = map fst obj"

text \<open>
  \<^verbatim>\<open>router.all("/api/status/:key")\<close>, on the request method and \<^verbatim>\<open>ctx.params.key\<close>.
  \<^verbatim>\<open>{...currentStatus, [key]: v}\<close> keeps the properties of \<^verbatim>\<open>currentStatus\<close> and
  sets \<^verbatim>\<open>key\<close>, in place when it is there already.
\<close>

definition api_status_key :: "env \<Rightarrow> string \<Rightarrow> string \<Rightarrow> unit async" where
  "api_status_key E method key =
     (if method \<notin> set [''POST'', ''GET''] then set_status 405
      else
        await (getName E) (\<lambda>me.
          if me = None \<and> method = ''GET'' then redirect ''/api/login''
          else if me = None \<and> method = ''POST'' then returns ()
          else
            await (status_read E) (\<lambda>currentStatus.
              if key \<notin> set (Object_keys currentStatus) then
                (\<lambda>s. (Inr (), respond 400 ''invalid key'' s))
              else
                await (status_write (AList.update key update_timestamp currentStatus)) (\<lambda>_.
                  if method = ''GET'' then redirect ''/''
                  else if method = ''POST'' then
                    await (status_read E) (\<lambda>st. set_body (StatusBody st))
                  else returns ()))))"

text \<open>
  The next request of the same browser: it has applied the \<^verbatim>\<open>Set-Cookie\<close> headers of
  the last response in their order, and the new response has nothing assigned to it.
\<close>

fun browser :: "Tokens json_text option \<Rightarrow> cookie_write list \<Rightarrow> Tokens json_text option" where
  "browser c [] = c"
| "browser c (SetCookie v # ws) = browser (Some v) ws"
| "browser c (DeleteCookie # ws) = browser None ws"

definition new_request :: "state \<Rightarrow> state" where
  "new_request s =
     s\<lparr>tokens_cookie := browser (tokens_cookie s) (set_cookie s), set_cookie := [],
       response := no_response\<rparr>"

section \<open>Notions the properties are stated with\<close>

text \<open>
  The provider's answer to a profile call with \<open>token\<close>, after the calls \<open>h\<close>, makes
  \<^verbatim>\<open>fetchRcApi\<close> return \<^verbatim>\<open>false\<close>: there is a response and its status is not 200.
\<close>

definition invalid :: "env \<Rightarrow> call list \<Rightarrow> string \<Rightarrow> bool" where
  "invalid E h token =
     (case profiles_me E h token of
        Rejected \<Rightarrow> False
      | Response code text \<Rightarrow> code \<noteq> 200)"

text \<open>The calls made between two states, and how many of them are of each kind.\<close>

definition made :: "state \<Rightarrow> state \<Rightarrow> call list" where
  "made s s' = drop (length (calls s)) (calls s')"

fun is_refresh :: "call \<Rightarrow> bool" where
  "is_refresh (RefreshToken rt) = True"
| "is_refresh c = False"

fun is_verify :: "call \<Rightarrow> bool" where
  "is_verify (FetchProfile token) = True"
| "is_verify c = False"

definition refresh_attempts :: "call list \<Rightarrow> nat" where
  "refresh_attempts cs = length (filter is_refresh cs)"

definition verifier_calls :: "call list \<Rightarrow> nat" where
  "verifier_calls cs = length (filter is_verify cs)"

text \<open>
  The \<^verbatim>\<open>Set-Cookie\<close> that a refresh attempt with \<open>rt\<close>, after the calls \<open>h\<close>, adds to
  the response: the new credential when the provider gives one and the framework takes
  it, nothing otherwise.
\<close>

definition refresh_writes :: "env \<Rightarrow> call list \<Rightarrow> string \<Rightarrow> cookie_write list" where
  "refresh_writes E h rt =
     (case refresh E h rt of
        Inl e \<Rightarrow> []
      | Inr t \<Rightarrow> if cookie_refused E (Json t) then [] else [SetCookie (Json t)])"

text \<open>The value of a key in a status record (\<^verbatim>\<open>record[key]\<close>).\<close>

definition field :: "Status \<Rightarrow> string \<Rightarrow> string option" where
  "field st k = map_of st k"

section \<open>Concrete situations\<close>

text \<open>
  A browser whose access token has expired and whose refresh token is good, and the
  provider that goes with it: it accepts the new access token only, refreshes
  \<open>rt-1\<close> only, and exchanges no authorization code. Its clock advances by a
  millisecond between the first reading and the second. No cookie value is refused.
\<close>

definition old_tokens :: Tokens where
  "old_tokens = \<lparr>accessToken = ''at-old'', tokenType = ''bearer'', expiresIn = 7200,
                  refreshToken = ''rt-1''\<rparr>"

definition new_tokens :: Tokens where
  "new_tokens = \<lparr>accessToken = ''at-new'', tokenType = ''bearer'', expiresIn = 7200,
                  refreshToken = ''rt-2''\<rparr>"

definition ada :: Me where
  "ada = \<lparr>first_name = ''Ada''\<rparr>"

definition provider :: env where
  "provider =
     \<lparr>profiles_me = (\<lambda>h token.
        if token = ''at-new'' then Response 200 (Json ada) else Response 401 Malformed),
      refresh = (\<lambda>h rt. if rt = ''rt-1'' then Inr new_tokens else Inl OAuthError),
      getToken = (\<lambda>h url verifier. Inl OAuthError),
      getAuthorizationUri = (''https://www.recurse.com/oauth/authorize'', ''verifier-1''),
      now = (\<lambda>n. if n = 0 then ''2026-01-01T09:00:00.000Z''
                   else ''2026-01-01T09:00:00.001Z''),
      cookie_refused = (\<lambda>v. False)\<rparr>"

text \<open>A provider that has revoked everything, and one that cannot be reached.\<close>

definition revoked :: env where
  "revoked = provider
     \<lparr>profiles_me := (\<lambda>h token. Response 401 Malformed),
      refresh := (\<lambda>h rt. Inl OAuthError)\<rparr>"

definition unreachable :: env where
  "unreachable = provider\<lparr>profiles_me := (\<lambda>h token. Rejected)\<rparr>"

text \<open>
  A provider that is out of order for the first call made to it and answers every later
  profile call with the profile: the access token the browser holds is good all along.
  The first one refreshes nothing, the second one refreshes as \<open>provider\<close> does.
\<close>

definition flaky :: env where
  "flaky = provider
     \<lparr>profiles_me := (\<lambda>h token.
        if h = [] then Response 503 Malformed else Response 200 (Json ada)),
      refresh := (\<lambda>h rt. Inl OAuthError)\<rparr>"

definition recovering :: env where
  "recovering = provider
     \<lparr>profiles_me := (\<lambda>h token.
        if h = [] then Response 503 Malformed else Response 200 (Json ada))\<rparr>"

text \<open>
  A deployment with no status file and a browser with no cookie; the same with the
  expired credential, with the fresh one, with a cookie that is not JSON, and in the
  middle of a login. \<open>returning\<close> is the browser that comes back with the credential it
  was given earlier, seen from a provider for which that credential is still good.
\<close>

definition fresh :: state where
  "fresh = \<lparr>tokens_cookie = None, set_cookie = [], codeVerifier = None,
            status_json = NotFound, response = no_response, calls = [], clock_reads = 0\<rparr>"

definition expired :: state where
  "expired = fresh\<lparr>tokens_cookie := Some (Json old_tokens)\<rparr>"

definition returning :: state where
  "returning = fresh\<lparr>tokens_cookie := Some (Json old_tokens)\<rparr>"

definition logged_in :: state where
  "logged_in = fresh\<lparr>tokens_cookie := Some (Json new_tokens)\<rparr>"


definition awaiting_callback :: state where
  "awaiting_callback = fresh\<lparr>codeVerifier := Some ''verifier-1''\<rparr>"

definition two_keys :: Status where
  "two_keys = [(''last_emptied'', ''2026-01-01T09:00:00.000Z''),
               (''last_cleaned'', ''2026-01-01T09:00:00.001Z'')]"

text \<open>The logged-in browser once the status file exists.\<close>

definition serving :: state where
  "serving = logged_in\<lparr>status_json := Content (Json two_keys)\<rparr>"

section \<open>How the building blocks behave\<close>

lemma fetchRcApi_cases:
  "fetchRcApi E token s =
     (if invalid E (calls s) token then Inr None
      else case profiles_me E (calls s) token of
             Rejected \<Rightarrow> Inl FetchError
           | Response code text \<Rightarrow>
               (case text of Malformed \<Rightarrow> Inl SyntaxError | Json me \<Rightarrow> Inr (Some me)),
      s\<lparr>calls := calls s @ [FetchProfile token]\<rparr>)"
  by (simp add: fetchRcApi_def invalid_def JSON_parse_def Let_def
      split: http_result.splits json_text.splits)

lemma fetchRcApi_state:
  "snd (fetchRcApi E token s) = s\<lparr>calls := calls s @ [FetchProfile token]\<rparr>"
  by (simp add: fetchRcApi_cases)

lemma fetchRcApi_invalid:
  "invalid E (calls s) token \<Longrightarrow>
   fetchRcApi E token s = (Inr None, s\<lparr>calls := calls s @ [FetchProfile token]\<rparr>)"
  by (simp add: fetchRcApi_cases)

lemma fetchRcApi_false_iff:
  "fst (fetchRcApi E token s) = Inr None \<longleftrightarrow> invalid E (calls s) token"
  by (simp add: fetchRcApi_cases split: http_result.splits json_text.splits)

lemma refreshTokens_failure:
  "refresh E (calls s) rt = Inl e \<Longrightarrow>
   refreshTokens E rt s = (Inr False, s\<lparr>calls := calls s @ [RefreshToken rt]\<rparr>)"
  by (simp add: refreshTokens_def Let_def)

lemma refreshTokens_success:
  "refresh E (calls s) rt = Inr t \<Longrightarrow> \<not> cookie_refused E (Json t) \<Longrightarrow>
   refreshTokens E rt s =
     (Inr True, s\<lparr>calls := calls s @ [RefreshToken rt],
                  set_cookie := set_cookie s @ [SetCookie (Json t)]\<rparr>)"
  by (simp add: refreshTokens_def Let_def setTokens_def JSON_stringify_def)

lemma refreshTokens_refused:
  "refresh E (calls s) rt = Inr t \<Longrightarrow> cookie_refused E (Json t) \<Longrightarrow>
   refreshTokens E rt s = (Inr False, s\<lparr>calls := calls s @ [RefreshToken rt]\<rparr>)"
  by (simp add: refreshTokens_def Let_def setTokens_def JSON_stringify_def)

text \<open>
  \<^verbatim>\<open>refreshTokens\<close> never throws, and whatever the provider does it leaves the request's
  cookie alone: it adds the outbound call and at most one \<^verbatim>\<open>Set-Cookie\<close>.
\<close>

lemma refreshTokens_returns:
  "\<exists>r. fst (refreshTokens E rt s) = Inr r"
proof (cases "refresh E (calls s) rt")
  case (Inl e)
  then show ?thesis by (auto simp add: refreshTokens_failure)
next
  case (Inr t)
  then show ?thesis
    by (cases "cookie_refused E (Json t)")
      (auto simp add: refreshTokens_success refreshTokens_refused)
qed

lemma refreshTokens_state:
  "snd (refreshTokens E rt s) =
     s\<lparr>calls := calls s @ [RefreshToken rt],
       set_cookie := set_cookie s @ refresh_writes E (calls s) rt\<rparr>"
proof (cases "refresh E (calls s) rt")
  case (Inl e)
  then show ?thesis by (simp add: refreshTokens_failure refresh_writes_def)
next
  case (Inr t)
  then show ?thesis
    by (cases "cookie_refused E (Json t)")
      (simp_all add: refreshTokens_success refreshTokens_refused refresh_writes_def)
qed

lemma getTokens_Json:
  "tokens_cookie s = Some (Json t) \<Longrightarrow> getTokens s = (Inr (Some t), s)"
  by (simp add: getTokens_def JSON_parse_def)

lemma getTokens_None:
  "tokens_cookie s = None \<Longrightarrow> getTokens s = (Inr None, s)"
  by (simp add: getTokens_def)

lemma getTokens_Malformed:
  "tokens_cookie s = Some Malformed \<Longrightarrow> getTokens s = (Inl SyntaxError, s)"
  by (simp add: getTokens_def JSON_parse_def)

lemma getName_None:
  "tokens_cookie s = None \<Longrightarrow> getName E s = (Inr None, respond 401 ''not logged in'' s)"
  by (simp add: getName_def await_def getTokens_None)

lemma getName_Malformed:
  "tokens_cookie s = Some Malformed \<Longrightarrow> getName E s = (Inl SyntaxError, s)"
  by (simp add: getName_def await_def getTokens_Malformed)

lemma getName_first_answer:
  assumes "tokens_cookie s = Some (Json t)"
    and "\<not> invalid E (calls s) (accessToken t)"
  shows "getName E s = fetchRcApi E (accessToken t) s"
proof (cases "fetchRcApi E (accessToken t) s")
  case (Pair r s1)
  with assms(2) have "r \<noteq> Inr None"
    using fetchRcApi_false_iff [of E "accessToken t" s] by auto
  with Pair assms(1) show ?thesis
    by (cases r) (auto simp add: getName_def await_def getTokens_Json returns_def)
qed

text \<open>
  After a failed first verifier call: the refresh attempt, then the cookie of the request
  read again, which is the credential the request came with, and the second verifier
  call with its access token.
\<close>

lemma getName_retry:
  assumes "tokens_cookie s = Some (Json t)"
    and "invalid E (calls s) (accessToken t)"
    and "s2 = s\<lparr>calls := calls s @ [FetchProfile (accessToken t), RefreshToken (refreshToken t)],
                 set_cookie := set_cookie s @
                   refresh_writes E (calls s @ [FetchProfile (accessToken t)]) (refreshToken t)\<rparr>"
  shows "getName E s =
     (case fetchRcApi E (accessToken t) s2 of
        (Inl e, s3) \<Rightarrow> (Inl e, s3)
      | (Inr None, s3) \<Rightarrow>
          (Inr None, respond 401 ''invalid session''
             (s3\<lparr>set_cookie := set_cookie s3 @ [DeleteCookie]\<rparr>))
      | (Inr (Some me), s3) \<Rightarrow> (Inr None, s3))"
proof -
  let ?s1 = "s\<lparr>calls := calls s @ [FetchProfile (accessToken t)]\<rparr>"
  obtain r where r: "fst (refreshTokens E (refreshToken t) ?s1) = Inr r"
    using refreshTokens_returns by blast
  have "snd (refreshTokens E (refreshToken t) ?s1) = s2"
    using assms(3) by (simp add: refreshTokens_state)
  with r have rf: "refreshTokens E (refreshToken t) ?s1 = (Inr r, s2)"
    by (cases "refreshTokens E (refreshToken t) ?s1") simp
  have "tokens_cookie s2 = Some (Json t)"
    using assms(1) assms(3) by simp
  then have g2: "getTokens s2 = (Inr (Some t), s2)" by (rule getTokens_Json)
  show ?thesis
    using assms(1) assms(2) rf g2
    by (simp add: getName_def await_def getTokens_Json fetchRcApi_invalid
        deleteTokens_def returns_def split: prod.splits sum.splits option.splits)
qed

text \<open>
  Once the first verifier call has failed, no path of \<^verbatim>\<open>getName\<close> returns an
  identity.
\<close>

lemma getName_first_invalid_no_identity:
  assumes "tokens_cookie s = Some (Json t)"
    and "invalid E (calls s) (accessToken t)"
  shows "fst (getName E s) \<noteq> Inr (Some me)"
  using getName_retry [OF assms refl]
  by (simp split: prod.splits sum.splits option.splits)

text \<open>
  Whatever the cookie and the provider, one run of \<^verbatim>\<open>getName\<close> makes at most one
  refresh attempt and at most two verifier calls.
\<close>

lemma getName_call_bound:
  "refresh_attempts (made s (snd (getName E s))) \<le> 1 \<and>
   verifier_calls (made s (snd (getName E s))) \<le> 2"
proof (cases "tokens_cookie s")
  case None
  then show ?thesis
    by (simp add: getName_None respond_def made_def refresh_attempts_def verifier_calls_def)
next
  case (Some c)
  show ?thesis
  proof (cases c)
    case Malformed
    with Some show ?thesis
      by (simp add: getName_Malformed made_def refresh_attempts_def verifier_calls_def)
  next
    case (Json t)
    with Some have c: "tokens_cookie s = Some (Json t)" by simp
    show ?thesis
    proof (cases "invalid E (calls s) (accessToken t)")
      case True
      show ?thesis
        using getName_retry [OF c True refl]
        by (simp add: fetchRcApi_cases respond_def made_def refresh_attempts_def
            verifier_calls_def split: sum.splits option.splits)
    next
      case False
      show ?thesis
        using getName_first_answer [OF c False]
        by (simp add: fetchRcApi_state made_def refresh_attempts_def verifier_calls_def)
    qed
  qed
qed

text \<open>
  \<^verbatim>\<open>getName\<close> touches neither the status file nor the clock, and the cookie of the
  request is the same after it.
\<close>

lemma getName_frame:
  "status_json (snd (getName E s)) = status_json s \<and>
   clock_reads (snd (getName E s)) = clock_reads s \<and>
   tokens_cookie (snd (getName E s)) = tokens_cookie s"
proof (cases "tokens_cookie s")
  case None
  then show ?thesis by (simp add: getName_None respond_def)
next
  case (Some c)
  show ?thesis
  proof (cases c)
    case Malformed
    with Some show ?thesis by (simp add: getName_Malformed)
  next
    case (Json t)
    with Some have c: "tokens_cookie s = Some (Json t)" by simp
    show ?thesis
    proof (cases "invalid E (calls s) (accessToken t)")
      case True
      show ?thesis
        using getName_retry [OF c True refl]
        by (simp add: fetchRcApi_cases respond_def split: sum.splits option.splits)
    next
      case False
      show ?thesis
        using getName_first_answer [OF c False] by (simp add: fetchRcApi_state)
    qed
  qed
qed

lemma status_read_Content:
  "status_json s = Content (Json st) \<Longrightarrow> status_read E s = (Inr st, s)"
  by (simp add: status_read_def JSON_parse_def)

lemma status_read_NotFound:
  "status_json s = NotFound \<Longrightarrow>
   status_read E s =
     (Inr [(''last_emptied'', now E (clock_reads s)),
           (''last_cleaned'', now E (clock_reads s + 1))],
      s\<lparr>clock_reads := clock_reads s + 2,
        status_json := Content (Json [(''last_emptied'', now E (clock_reads s)),
                                      (''last_cleaned'', now E (clock_reads s + 1))])\<rparr>)"
  by (simp add: status_read_def JSON_stringify_def Let_def)

lemma getName_identity_state:
  assumes "getName E s = (Inr (Some me), s1)"
  shows "status_json s1 = status_json s \<and> clock_reads s1 = clock_reads s"
  using getName_frame [of E s] assms by simp

lemma getName_false_state:
  assumes "getName E s = (Inr None, s1)"
  shows "status_json s1 = status_json s"
  using getName_frame [of E s] assms by simp

lemma field_update:
  "field (AList.update key v st) k = (if k = key then Some v else field st k)"
  by (simp add: field_def update_conv')

lemma Object_keys_update:
  "key \<in> set (Object_keys st) \<Longrightarrow> Object_keys (AList.update key v st) = Object_keys st"
  by (simp add: Object_keys_def update_keys)

text \<open>The update, once \<^verbatim>\<open>getName\<close> has returned an identity.\<close>

lemma api_status_key_rejected:
  assumes "method = ''GET'' \<or> method = ''POST''"
    and "getName E s = (Inr (Some me), s1)"
    and "status_json s = Content (Json st)"
    and "key \<notin> set (Object_keys st)"
  shows "api_status_key E method key s = (Inr (), respond 400 ''invalid key'' s1)"
proof -
  have "status_json s1 = Content (Json st)"
    using getName_identity_state [OF assms(2)] assms(3) by simp
  then have "status_read E s1 = (Inr st, s1)" by (rule status_read_Content)
  then show ?thesis
    using assms by (auto simp add: api_status_key_def await_def)
qed

lemma api_status_key_accepted:
  assumes "getName E s = (Inr (Some me), s1)"
    and "status_json s = Content (Json st)"
    and "key \<in> set (Object_keys st)"
  shows "api_status_key E ''POST'' key s =
           (Inr (), s1\<lparr>status_json := Content (Json (AList.update key update_timestamp st)),
                       response := (response s1)
                         \<lparr>body := Some (StatusBody (AList.update key update_timestamp st))\<rparr>\<rparr>)"
    and "api_status_key E ''GET'' key s =
           (Inr (), s1\<lparr>status_json := Content (Json (AList.update key update_timestamp st)),
                       response := (response s1)\<lparr>location := Some ''/''\<rparr>\<rparr>)"
proof -
  have "status_json s1 = Content (Json st)"
    using getName_identity_state [OF assms(1)] assms(2) by simp
  then have r: "status_read E s1 = (Inr st, s1)" by (rule status_read_Content)
  show "api_status_key E ''POST'' key s =
           (Inr (), s1\<lparr>status_json := Content (Json (AList.update key update_timestamp st)),
                       response := (response s1)
                         \<lparr>body := Some (StatusBody (AList.update key update_timestamp st))\<rparr>\<rparr>)"
    using assms r
    by (simp add: api_status_key_def await_def status_write_def status_read_def
        JSON_stringify_def JSON_parse_def set_body_def)
  show "api_status_key E ''GET'' key s =
           (Inr (), s1\<lparr>status_json := Content (Json (AList.update key update_timestamp st)),
                       response := (response s1)\<lparr>location := Some ''/''\<rparr>\<rparr>)"
    using assms r
    by (simp add: api_status_key_def await_def status_write_def JSON_stringify_def redirect_def)
qed

text \<open>The logged-in browser is recognised at the first verifier call.\<close>

lemma getName_serving:
  "getName provider serving = (Inr (Some ada), serving\<lparr>calls := [FetchProfile ''at-new'']\<rparr>)"
proof -
  have c: "tokens_cookie serving = Some (Json new_tokens)"
    by (simp add: serving_def logged_in_def)
  have i: "\<not> invalid provider (calls serving) (accessToken new_tokens)"
    by (simp add: invalid_def provider_def new_tokens_def)
  show ?thesis
    using getName_first_answer [OF c i]
    by (simp add: fetchRcApi_cases invalid_def provider_def new_tokens_def serving_def
        logged_in_def fresh_def)
qed

section \<open>The token store\<close>

text \<open>
  Claim C8. When the provider's refresh exchange fails, \<^verbatim>\<open>refreshTokens\<close> returns
  \<^verbatim>\<open>false\<close> and writes nothing: the cookie is what it was before the call, and so is
  the rest of the state; only the outbound call itself has been made.
\<close>

theorem refreshTokens_failure_writes_nothing:
  assumes "refresh E (calls s) rt = Inl e"
  shows "fst (refreshTokens E rt s) = Inr False \<and>
         tokens_cookie (snd (refreshTokens E rt s)) = tokens_cookie s \<and>
         snd (refreshTokens E rt s) = s\<lparr>calls := calls s @ [RefreshToken rt]\<rparr>"
  using assms by (simp add: refreshTokens_failure)

theorem refreshTokens_failure_writes_nothing_witness:
  "refresh revoked (calls expired) ''rt-1'' = Inl OAuthError \<and>
   fst (refreshTokens revoked ''rt-1'' expired) = Inr False \<and>
   tokens_cookie (snd (refreshTokens revoked ''rt-1'' expired)) = Some (Json old_tokens) \<and>
   snd (refreshTokens revoked ''rt-1'' expired) = expired\<lparr>calls := [RefreshToken ''rt-1'']\<rparr>"
  using refreshTokens_failure_writes_nothing [of revoked expired "''rt-1''" OAuthError]
  by (simp add: revoked_def provider_def expired_def fresh_def)

section \<open>Resolving the identity\<close>

text \<open>
  Claim C10. When the first verifier call fails and the refresh attempt fails too,
  \<^verbatim>\<open>getName\<close> ignores the result of the refresh: it reads the cookie again, which is
  unchanged, and calls the verifier a second time with the old access token. The three
  outbound calls are made in every case. "invalid session" (with the deletion of the
  cookie written to the response) is the outcome exactly when that second call fails as
  well; when it does not, nothing is assigned to the response and no cookie is written or
  deleted.
\<close>

theorem getName_refresh_failure_retries_old_token:
  assumes "tokens_cookie s = Some (Json t)"
    and "invalid E (calls s) (accessToken t)"
    and "refresh E (calls s @ [FetchProfile (accessToken t)]) (refreshToken t) = Inl e"
    and "h2 = calls s @ [FetchProfile (accessToken t), RefreshToken (refreshToken t)]"
  shows "calls (snd (getName E s)) = h2 @ [FetchProfile (accessToken t)] \<and>
         (invalid E h2 (accessToken t) \<longrightarrow>
            getName E s =
              (Inr None, respond 401 ''invalid session''
                 (s\<lparr>calls := h2 @ [FetchProfile (accessToken t)],
                    set_cookie := set_cookie s @ [DeleteCookie]\<rparr>))) \<and>
         (\<not> invalid E h2 (accessToken t) \<longrightarrow>
            response (snd (getName E s)) = response s \<and>
            tokens_cookie (snd (getName E s)) = tokens_cookie s \<and>
            set_cookie (snd (getName E s)) = set_cookie s)"
proof -
  let ?s2 = "s\<lparr>calls := h2\<rparr>"
  have retry: "getName E s =
     (case fetchRcApi E (accessToken t) ?s2 of
        (Inl e, s3) \<Rightarrow> (Inl e, s3)
      | (Inr None, s3) \<Rightarrow>
          (Inr None, respond 401 ''invalid session''
             (s3\<lparr>set_cookie := set_cookie s3 @ [DeleteCookie]\<rparr>))
      | (Inr (Some me), s3) \<Rightarrow> (Inr None, s3))"
    using getName_retry [OF assms(1) assms(2) refl] assms(3) assms(4)
    by (simp add: refresh_writes_def)
  have st: "snd (fetchRcApi E (accessToken t) ?s2) = s\<lparr>calls := h2 @ [FetchProfile (accessToken t)]\<rparr>"
    by (simp add: fetchRcApi_state)
  obtain r s3 where f: "fetchRcApi E (accessToken t) ?s2 = (r, s3)"
    by (cases "fetchRcApi E (accessToken t) ?s2")
  with st have s3: "s3 = s\<lparr>calls := h2 @ [FetchProfile (accessToken t)]\<rparr>" by simp
  have r: "r = Inr None \<longleftrightarrow> invalid E h2 (accessToken t)"
    using fetchRcApi_false_iff [of E "accessToken t" ?s2] f by simp
  show ?thesis
    using retry f s3 r
    by (auto simp add: respond_def split: sum.splits option.splits)
qed

theorem getName_refresh_failure_retries_old_token_witness:
  "calls (snd (getName revoked expired)) =
     [FetchProfile ''at-old'', RefreshToken ''rt-1'', FetchProfile ''at-old''] \<and>
   getName revoked expired =
     (Inr None, respond 401 ''invalid session''
        (expired\<lparr>calls := [FetchProfile ''at-old'', RefreshToken ''rt-1'', FetchProfile ''at-old''],
                  set_cookie := [DeleteCookie]\<rparr>)) \<and>
   calls (snd (getName flaky expired)) =
     [FetchProfile ''at-old'', RefreshToken ''rt-1'', FetchProfile ''at-old''] \<and>
   response (snd (getName flaky expired)) = no_response \<and>
   tokens_cookie (snd (getName flaky expired)) = Some (Json old_tokens) \<and>
   set_cookie (snd (getName flaky expired)) = []"
  using getName_refresh_failure_retries_old_token
          [of expired old_tokens revoked OAuthError
              "[FetchProfile ''at-old'', RefreshToken ''rt-1'']"]
        getName_refresh_failure_retries_old_token
          [of expired old_tokens flaky OAuthError
              "[FetchProfile ''at-old'', RefreshToken ''rt-1'']"]
  by (simp add: revoked_def flaky_def provider_def expired_def fresh_def old_tokens_def
      invalid_def respond_def)

text \<open>
  Claim C6. A credential is stored and its access token fails the Identity Verifier
  whenever it is presented (the provider answers with a status other than 200). Then
  \<^verbatim>\<open>getName\<close> makes one verifier call, one refresh attempt and one more verifier call
  with the same access token, since the cookie read again is the one the request came
  with; it returns \<^verbatim>\<open>false\<close>, writes the deletion of the cookie after whatever the
  refresh wrote, and the response has status 401 and the message "invalid session". That
  is at most one refresh attempt and at most two verifier calls.
\<close>

theorem getName_always_invalid:
  assumes "tokens_cookie s = Some (Json t)"
    and "\<forall>h. invalid E h (accessToken t)"
  shows "fst (getName E s) = Inr None \<and>
         calls (snd (getName E s)) =
           calls s @ [FetchProfile (accessToken t), RefreshToken (refreshToken t),
                      FetchProfile (accessToken t)] \<and>
         refresh_attempts (made s (snd (getName E s))) \<le> 1 \<and>
         verifier_calls (made s (snd (getName E s))) \<le> 2 \<and>
         status (response (snd (getName E s))) = Some 401 \<and>
         body (response (snd (getName E s))) = Some (Message ''invalid session'') \<and>
         set_cookie (snd (getName E s)) =
           set_cookie s @
           refresh_writes E (calls s @ [FetchProfile (accessToken t)]) (refreshToken t) @
           [DeleteCookie]"
proof -
  have inv: "\<And>h. invalid E h (accessToken t)" using assms(2) by simp
  have "getName E s =
     (Inr None, respond 401 ''invalid session''
        (s\<lparr>calls := calls s @ [FetchProfile (accessToken t), RefreshToken (refreshToken t),
                                FetchProfile (accessToken t)],
           set_cookie := set_cookie s @
             refresh_writes E (calls s @ [FetchProfile (accessToken t)]) (refreshToken t) @
             [DeleteCookie]\<rparr>))"
    using getName_retry [OF assms(1) inv refl]
    by (simp add: fetchRcApi_invalid inv)
  then show ?thesis
    using getName_call_bound [of s E] by (simp add: respond_def)
qed

theorem getName_always_invalid_witness:
  "fst (getName revoked expired) = Inr None \<and>
   calls (snd (getName revoked expired)) =
     [FetchProfile ''at-old'', RefreshToken ''rt-1'', FetchProfile ''at-old''] \<and>
   response (snd (getName revoked expired)) =
     \<lparr>status = Some 401, body = Some (Message ''invalid session''), location = None\<rparr> \<and>
   set_cookie (snd (getName revoked expired)) = [DeleteCookie] \<and>
   fst (getName provider expired) = Inr None \<and>
   calls (snd (getName provider expired)) =
     [FetchProfile ''at-old'', RefreshToken ''rt-1'', FetchProfile ''at-old''] \<and>
   refresh_attempts (made expired (snd (getName provider expired))) \<le> 1 \<and>
   verifier_calls (made expired (snd (getName provider expired))) \<le> 2 \<and>
   response (snd (getName provider expired)) =
     \<lparr>status = Some 401, body = Some (Message ''invalid session''), location = None\<rparr> \<and>
   set_cookie (snd (getName provider expired)) = [SetCookie (Json new_tokens), DeleteCookie]"
proof -
  have r: "response (snd (getName revoked expired)) = no_response
             \<lparr>status := status (response (snd (getName revoked expired))),
              body := body (response (snd (getName revoked expired)))\<rparr>"
    using getName_retry [of expired old_tokens revoked, OF _ _ refl]
    by (simp add: fetchRcApi_cases respond_def revoked_def provider_def expired_def fresh_def
        old_tokens_def invalid_def)
  have p: "response (snd (getName provider expired)) = no_response
             \<lparr>status := status (response (snd (getName provider expired))),
              body := body (response (snd (getName provider expired)))\<rparr>"
    using getName_retry [of expired old_tokens provider, OF _ _ refl]
    by (simp add: fetchRcApi_cases respond_def provider_def expired_def fresh_def
        old_tokens_def invalid_def)
  show ?thesis
    using getName_always_invalid [of expired old_tokens revoked]
          getName_always_invalid [of expired old_tokens provider] r p
    by (simp add: revoked_def provider_def expired_def fresh_def old_tokens_def
        invalid_def refresh_writes_def no_response_def)
qed

text \<open>
  Claim C1. The browser holds a credential; the provider is out of order for the first
  verifier call, then refreshes the credential, and accepts the access token on the
  second verifier call, which presents the token of the cookie read again. Every premise
  of the claim holds, and \<^verbatim>\<open>getName\<close> returns \<^verbatim>\<open>false\<close>, not the identity: the result
  of the second call is bound to an inner \<^verbatim>\<open>name\<close>, and the \<^verbatim>\<open>return name\<close> after the
  block returns the outer one. \<^verbatim>\<open>GET /api/me\<close> ends with nothing assigned to the
  response, neither the first name nor a status.
\<close>

theorem getName_after_successful_refresh:
  "tokens_cookie returning = Some (Json old_tokens) \<and>
   fst (fetchRcApi recovering (accessToken old_tokens) returning) = Inr None \<and>
   refreshTokens recovering (refreshToken old_tokens)
       (returning\<lparr>calls := [FetchProfile ''at-old'']\<rparr>) =
     (Inr True, returning\<lparr>calls := [FetchProfile ''at-old'', RefreshToken ''rt-1''],
                         set_cookie := [SetCookie (Json new_tokens)]\<rparr>) \<and>
   getTokens (returning\<lparr>calls := [FetchProfile ''at-old'', RefreshToken ''rt-1''],
                       set_cookie := [SetCookie (Json new_tokens)]\<rparr>) =
     (Inr (Some old_tokens),
      returning\<lparr>calls := [FetchProfile ''at-old'', RefreshToken ''rt-1''],
               set_cookie := [SetCookie (Json new_tokens)]\<rparr>) \<and>
   fst (fetchRcApi recovering (accessToken old_tokens)
          (returning\<lparr>calls := [FetchProfile ''at-old'', RefreshToken ''rt-1''],
                    set_cookie := [SetCookie (Json new_tokens)]\<rparr>)) = Inr (Some ada) \<and>
   getName recovering returning =
     (Inr None, returning\<lparr>calls := [FetchProfile ''at-old'', RefreshToken ''rt-1'',
                                  FetchProfile ''at-old''],
                         set_cookie := [SetCookie (Json new_tokens)]\<rparr>) \<and>
   api_me recovering returning =
     (Inr (), returning\<lparr>calls := [FetchProfile ''at-old'', RefreshToken ''rt-1'',
                                FetchProfile ''at-old''],
                       set_cookie := [SetCookie (Json new_tokens)]\<rparr>) \<and>
   response (snd (api_me recovering returning)) = no_response \<and>
   body (response (snd (api_me recovering returning))) \<noteq> Some (MeBody ada)"
proof -
  have c: "tokens_cookie returning = Some (Json old_tokens)"
    by (simp add: returning_def)
  have i: "invalid recovering (calls returning) (accessToken old_tokens)"
    by (simp add: invalid_def recovering_def provider_def old_tokens_def returning_def fresh_def)
  have r: "refresh recovering [FetchProfile ''at-old''] ''rt-1'' = Inr new_tokens"
    by (simp add: recovering_def provider_def)
  have n: "\<not> cookie_refused recovering (Json new_tokens)"
    by (simp add: recovering_def provider_def)
  have g: "getName recovering returning =
     (Inr None, returning\<lparr>calls := [FetchProfile ''at-old'', RefreshToken ''rt-1'',
                                  FetchProfile ''at-old''],
                         set_cookie := [SetCookie (Json new_tokens)]\<rparr>)"
    using getName_retry [OF c i refl]
    by (simp add: fetchRcApi_cases invalid_def refresh_writes_def recovering_def provider_def
        old_tokens_def returning_def fresh_def)
  have f: "refreshTokens recovering (refreshToken old_tokens)
       (returning\<lparr>calls := [FetchProfile ''at-old'']\<rparr>) =
     (Inr True, returning\<lparr>calls := [FetchProfile ''at-old'', RefreshToken ''rt-1''],
                         set_cookie := [SetCookie (Json new_tokens)]\<rparr>)"
    using refreshTokens_success [of recovering "returning\<lparr>calls := [FetchProfile ''at-old'']\<rparr>"
            "''rt-1''" new_tokens] r n
    by (simp add: old_tokens_def returning_def fresh_def)
  show ?thesis
    using g f
    by (simp add: api_me_def await_def returns_def fetchRcApi_cases getTokens_Json
        invalid_def recovering_def provider_def old_tokens_def returning_def fresh_def
        no_response_def ada_def)
qed




section \<open>Failures of the calls to the provider\<close>

text \<open>
  Claim C3, as the code has it. A failed exchange of the authorization code is thrown out
  of the handler of \<^verbatim>\<open>/api/callback\<close>, and a rejected \<^verbatim>\<open>fetch\<close> of the profile is
  thrown out of the handler of \<^verbatim>\<open>/api/me\<close>: neither call has a \<^verbatim>\<open>try\<close> around it.
\<close>

theorem provider_failure_thrown:
  "codeVerifier awaiting_callback = Some ''verifier-1'' \<and>
   getToken provider (calls awaiting_callback) ''/api/callback?code=c0de'' ''verifier-1'' =
     Inl OAuthError \<and>
   fst (api_callback provider ''/api/callback?code=c0de'' awaiting_callback) = Inl OAuthError \<and>
   profiles_me unreachable (calls logged_in) (accessToken new_tokens) = Rejected \<and>
   fst (api_me unreachable logged_in) = Inl FetchError"
  by (simp add: api_callback_def awaiting_callback_def fresh_def provider_def Let_def
      unreachable_def logged_in_def api_me_def await_def getName_def getTokens_def
      JSON_parse_def fetchRcApi_def)

text \<open>
  Claim C3, amended. Of the three calls to the provider, the token refresh alone is
  caught where it is made: \<^verbatim>\<open>refreshTokens\<close> never throws, and returns \<^verbatim>\<open>false\<close> when
  the provider fails. A profile lookup answered with a status other than 200 becomes the
  value \<^verbatim>\<open>false\<close>; a rejected \<^verbatim>\<open>fetch\<close> is thrown by \<^verbatim>\<open>fetchRcApi\<close>. A failure of
  the authorization-code exchange is thrown by the handler of \<^verbatim>\<open>/api/callback\<close>.
\<close>

theorem provider_failures:
  "(\<exists>r. fst (refreshTokens E rt s) = Inr r) \<and>
   (refresh E (calls s) rt = Inl e \<longrightarrow> fst (refreshTokens E rt s) = Inr False) \<and>
   (invalid E (calls s) token \<longrightarrow> fst (fetchRcApi E token s) = Inr None) \<and>
   (profiles_me E (calls s) token = Rejected \<longrightarrow>
      fst (fetchRcApi E token s) = Inl FetchError) \<and>
   (codeVerifier s = Some verifier \<and> getToken E (calls s) url verifier = Inl e \<longrightarrow>
      fst (api_callback E url s) = Inl e)"
proof -
  have "\<exists>r. fst (refreshTokens E rt s) = Inr r"
    by (rule refreshTokens_returns)
  moreover have "invalid E (calls s) token \<longrightarrow> fst (fetchRcApi E token s) = Inr None"
    by (simp add: fetchRcApi_invalid)
  moreover have "profiles_me E (calls s) token = Rejected \<longrightarrow>
      fst (fetchRcApi E token s) = Inl FetchError"
    by (simp add: fetchRcApi_def Let_def)
  moreover have "codeVerifier s = Some verifier \<and> getToken E (calls s) url verifier = Inl e \<longrightarrow>
      fst (api_callback E url s) = Inl e"
    by (simp add: api_callback_def Let_def)
  ultimately show ?thesis
    by (simp add: refreshTokens_failure)
qed

theorem provider_failures_witness:
  "fst (refreshTokens revoked ''rt-1'' expired) = Inr False \<and>
   fst (fetchRcApi revoked ''at-old'' expired) = Inr None \<and>
   fst (fetchRcApi unreachable ''at-new'' logged_in) = Inl FetchError \<and>
   fst (api_callback provider ''/api/callback?code=c0de'' awaiting_callback) = Inl OAuthError"
  using provider_failures [of revoked "''rt-1''" expired OAuthError "''at-old''" "''verifier-1''"
          "''/api/callback?code=c0de''"]
        provider_failures [of unreachable "''rt-1''" logged_in OAuthError "''at-new''"
          "''verifier-1''" "''/api/callback?code=c0de''"]
        provider_failures [of provider "''rt-1''" awaiting_callback OAuthError "''at-old''"
          "''verifier-1''" "''/api/callback?code=c0de''"]
  by (simp add: revoked_def unreachable_def provider_def expired_def logged_in_def
      awaiting_callback_def fresh_def invalid_def)

section \<open>The status record store\<close>

text \<open>
  Claim C7. For an authenticated user (\<^verbatim>\<open>getName\<close> returns an identity), whatever record
  the status file holds and whatever key is not among the keys of that record, the
  handler of \<^verbatim>\<open>/api/status/:key\<close> answers 400 with the message "invalid key" and
  leaves the file as it was. The keys that count are those of the record read from the
  file for this request.
\<close>

theorem update_unknown_key:
  assumes "method = ''GET'' \<or> method = ''POST''"
    and "getName E s = (Inr (Some me), s1)"
    and "status_json s = Content (Json st)"
    and "key \<notin> set (Object_keys st)"
  shows "api_status_key E method key s = (Inr (), respond 400 ''invalid key'' s1) \<and>
         status (response (snd (api_status_key E method key s))) = Some 400 \<and>
         body (response (snd (api_status_key E method key s))) = Some (Message ''invalid key'') \<and>
         status_json (snd (api_status_key E method key s)) = Content (Json st)"
  using api_status_key_rejected [OF assms] getName_identity_state [OF assms(2)] assms(3)
  by (simp add: respond_def)

theorem update_unknown_key_witness:
  "api_status_key provider ''POST'' ''nonexistent_key'' serving =
     (Inr (), respond 400 ''invalid key'' (serving\<lparr>calls := [FetchProfile ''at-new'']\<rparr>)) \<and>
   status (response (snd (api_status_key provider ''POST'' ''nonexistent_key'' serving))) =
     Some 400 \<and>
   body (response (snd (api_status_key provider ''POST'' ''nonexistent_key'' serving))) =
     Some (Message ''invalid key'') \<and>
   status_json (snd (api_status_key provider ''POST'' ''nonexistent_key'' serving)) =
     Content (Json two_keys) \<and>
   status_json (snd (api_status_key provider ''GET'' ''last_emptied''
       (serving\<lparr>status_json := Content (Json [(''last_cleaned'', ''2026-01-01T09:00:00.001Z'')])\<rparr>))) =
     Content (Json [(''last_cleaned'', ''2026-01-01T09:00:00.001Z'')])"
proof -
  let ?one = "[(''last_cleaned'', ''2026-01-01T09:00:00.001Z'')]"
  let ?s = "serving\<lparr>status_json := Content (Json ?one)\<rparr>"
  have c: "tokens_cookie ?s = Some (Json new_tokens)"
    by (simp add: serving_def logged_in_def)
  have i: "\<not> invalid provider (calls ?s) (accessToken new_tokens)"
    by (simp add: invalid_def provider_def new_tokens_def)
  have g: "getName provider ?s = (Inr (Some ada), ?s\<lparr>calls := [FetchProfile ''at-new'']\<rparr>)"
    using getName_first_answer [OF c i]
    by (simp add: fetchRcApi_cases invalid_def provider_def new_tokens_def serving_def
        logged_in_def fresh_def)
  show ?thesis
    using update_unknown_key [of "''POST''" provider serving ada
            "serving\<lparr>calls := [FetchProfile ''at-new'']\<rparr>" two_keys "''nonexistent_key''"]
          update_unknown_key [of "''GET''" provider ?s ada
            "?s\<lparr>calls := [FetchProfile ''at-new'']\<rparr>" ?one "''last_emptied''"]
          getName_serving g
    by (simp add: serving_def two_keys_def Object_keys_def respond_def)
qed

text \<open>
  Claim C9. For an authenticated user and a key of the persisted record, the handler
  writes the whole record back with that key set to the timestamp of the update: the
  named key has the new value, every other key has the value it had, the keys are the
  same, and the file holds the whole new record. For POST the body of the response is
  the record read back after the write; for GET the response is a redirect to the root.
\<close>

theorem update_accepted:
  assumes "getName E s = (Inr (Some me), s1)"
    and "status_json s = Content (Json st)"
    and "key \<in> set (Object_keys st)"
    and "st' = AList.update key update_timestamp st"
  shows "api_status_key E ''POST'' key s =
           (Inr (), s1\<lparr>status_json := Content (JSON_stringify st'),
                       response := (response s1)\<lparr>body := Some (StatusBody st')\<rparr>\<rparr>) \<and>
         api_status_key E ''GET'' key s =
           (Inr (), s1\<lparr>status_json := Content (JSON_stringify st'),
                       response := (response s1)\<lparr>location := Some ''/''\<rparr>\<rparr>) \<and>
         field st' key = Some update_timestamp \<and>
         (\<forall>k. k \<noteq> key \<longrightarrow> field st' k = field st k) \<and>
         Object_keys st' = Object_keys st"
  using api_status_key_accepted [OF assms(1) assms(2) assms(3)] assms(3) assms(4)
  by (simp add: field_update Object_keys_update JSON_stringify_def)

theorem update_accepted_witness:
  "api_status_key provider ''POST'' ''last_cleaned'' serving =
     (Inr (), serving
        \<lparr>calls := [FetchProfile ''at-new''],
         status_json := Content (Json [(''last_emptied'', ''2026-01-01T09:00:00.000Z''),
                                       (''last_cleaned'', ''2026-01-29T15:32:41.000Z'')]),
         response := no_response
           \<lparr>body := Some (StatusBody [(''last_emptied'', ''2026-01-01T09:00:00.000Z''),
                                      (''last_cleaned'', ''2026-01-29T15:32:41.000Z'')])\<rparr>\<rparr>) \<and>
   field [(''last_emptied'', ''2026-01-01T09:00:00.000Z''),
          (''last_cleaned'', ''2026-01-29T15:32:41.000Z'')] ''last_emptied'' =
     field two_keys ''last_emptied''"
  using update_accepted [of provider serving ada "serving\<lparr>calls := [FetchProfile ''at-new'']\<rparr>"
          two_keys "''last_cleaned''"
          "[(''last_emptied'', ''2026-01-01T09:00:00.000Z''),
            (''last_cleaned'', ''2026-01-29T15:32:41.000Z'')]"]
        getName_serving
  by (simp add: serving_def logged_in_def fresh_def two_keys_def Object_keys_def
      update_timestamp_def JSON_stringify_def)

text \<open>
  Claim C4, as the code has it. An unauthenticated \<^verbatim>\<open>POST /api/status/last_cleaned\<close>
  from a browser with no cookie does have a body: the handler returns with the response
  that \<^verbatim>\<open>getName\<close> prepared, status 401 and the message "not logged in".
\<close>

theorem unauthenticated_post_has_body:
  "tokens_cookie fresh = None \<and>
   api_status_key provider ''POST'' ''last_cleaned'' fresh =
     (Inr (), respond 401 ''not logged in'' fresh) \<and>
   body (response (snd (api_status_key provider ''POST'' ''last_cleaned'' fresh))) =
     Some (Message ''not logged in'') \<and>
   body (response (snd (api_status_key provider ''POST'' ''last_cleaned'' fresh))) \<noteq> None"
  by (simp add: api_status_key_def await_def getName_None returns_def respond_def fresh_def)

text \<open>
  Claim C4, amended. When \<^verbatim>\<open>getName\<close> returns \<^verbatim>\<open>false\<close>, the handler of
  \<^verbatim>\<open>POST /api/status/:key\<close> returns at once: the status file is unchanged and the
  response is the one \<^verbatim>\<open>getName\<close> left, to which the handler adds nothing. With no
  credential cookie that response is status 401 with the message "not logged in".
\<close>

theorem unauthenticated_post:
  assumes "getName E s = (Inr None, s1)"
  shows "api_status_key E ''POST'' key s = (Inr (), s1) \<and>
         status_json s1 = status_json s \<and>
         (tokens_cookie s = None \<longrightarrow>
            response s1 =
              (response s)\<lparr>status := Some 401, body := Some (Message ''not logged in'')\<rparr>)"
proof -
  have "api_status_key E ''POST'' key s = (Inr (), s1)"
    using assms by (simp add: api_status_key_def await_def returns_def)
  moreover have "status_json s1 = status_json s"
    using assms by (rule getName_false_state)
  moreover have "tokens_cookie s = None \<longrightarrow>
      response s1 = (response s)\<lparr>status := Some 401, body := Some (Message ''not logged in'')\<rparr>"
    using assms by (auto simp add: getName_None respond_def)
  ultimately show ?thesis by simp
qed

theorem unauthenticated_post_witness:
  "getName provider fresh = (Inr None, respond 401 ''not logged in'' fresh) \<and>
   api_status_key provider ''POST'' ''last_cleaned'' fresh =
     (Inr (), respond 401 ''not logged in'' fresh) \<and>
   status_json (respond 401 ''not logged in'' fresh) = NotFound \<and>
   response (respond 401 ''not logged in'' fresh) =
     \<lparr>status = Some 401, body = Some (Message ''not logged in''), location = None\<rparr>"
proof -
  have g: "getName provider fresh = (Inr None, respond 401 ''not logged in'' fresh)"
    by (simp add: getName_None fresh_def)
  show ?thesis
    using unauthenticated_post [OF g, of "''last_cleaned''"] g
    by (simp add: fresh_def respond_def no_response_def)
qed

text \<open>
  Claim C5, as the code has it. The two fields of the first record are two
  \<^verbatim>\<open>new Date()\<close>: when the clock advances between the two readings, \<^verbatim>\<open>GET /api/status\<close>
  on a fresh deployment returns a record whose two timestamps differ.
\<close>

theorem fresh_deployment_two_readings:
  "status_json fresh = NotFound \<and>
   body (response (snd (api_status provider fresh))) = Some (StatusBody two_keys) \<and>
   field two_keys ''last_emptied'' = Some ''2026-01-01T09:00:00.000Z'' \<and>
   field two_keys ''last_cleaned'' = Some ''2026-01-01T09:00:00.001Z'' \<and>
   field two_keys ''last_emptied'' \<noteq> field two_keys ''last_cleaned''"
  by (simp add: api_status_def await_def status_read_NotFound set_body_def fresh_def
      provider_def two_keys_def field_def)

text \<open>
  Claim C5, amended. On a deployment with no status file, \<^verbatim>\<open>GET /api/status\<close> returns
  \<^verbatim>\<open>{last_emptied: Ta, last_cleaned: Tb}\<close>, where \<open>Ta\<close> and \<open>Tb\<close> are two successive
  readings of the clock, and creates the file with that record. A following
  \<^verbatim>\<open>POST /api/status/last_emptied\<close> by an authenticated user returns
  \<^verbatim>\<open>{last_emptied: T1, last_cleaned: Tb}\<close>, where \<open>T1\<close> is the fixed timestamp that every
  update writes, and stores that record.
\<close>

theorem fresh_deployment:
  assumes "status_json s = NotFound"
    and "st0 = [(''last_emptied'', now E (clock_reads s)),
                (''last_cleaned'', now E (clock_reads s + 1))]"
    and "status_json s1 = status_json (snd (api_status E s))"
    and "getName E s1 = (Inr (Some me), s2)"
    and "st1 = [(''last_emptied'', update_timestamp),
                (''last_cleaned'', now E (clock_reads s + 1))]"
  shows "api_status E s =
           (Inr (), s\<lparr>clock_reads := clock_reads s + 2,
                      status_json := Content (JSON_stringify st0),
                      response := (response s)\<lparr>body := Some (StatusBody st0)\<rparr>\<rparr>) \<and>
         api_status_key E ''POST'' ''last_emptied'' s1 =
           (Inr (), s2\<lparr>status_json := Content (JSON_stringify st1),
                       response := (response s2)\<lparr>body := Some (StatusBody st1)\<rparr>\<rparr>)"
proof -
  have get: "api_status E s =
           (Inr (), s\<lparr>clock_reads := clock_reads s + 2,
                      status_json := Content (JSON_stringify st0),
                      response := (response s)\<lparr>body := Some (StatusBody st0)\<rparr>\<rparr>)"
    using assms(1) assms(2)
    by (simp add: api_status_def await_def status_read_NotFound set_body_def JSON_stringify_def)
  then have f: "status_json s1 = Content (Json st0)"
    using assms(3) by (simp add: JSON_stringify_def)
  have k: "''last_emptied'' \<in> set (Object_keys st0)"
    using assms(2) by (simp add: Object_keys_def)
  have "AList.update ''last_emptied'' update_timestamp st0 = st1"
    using assms(2) assms(5) by simp
  then show ?thesis
    using get api_status_key_accepted(1) [OF assms(4) f k]
    by (simp add: JSON_stringify_def)
qed

theorem fresh_deployment_witness:
  "api_status provider logged_in =
     (Inr (), logged_in\<lparr>clock_reads := 2, status_json := Content (Json two_keys),
                        response := no_response\<lparr>body := Some (StatusBody two_keys)\<rparr>\<rparr>) \<and>
   api_status_key provider ''POST'' ''last_emptied''
       (new_request (snd (api_status provider logged_in))) =
     (Inr (), logged_in
        \<lparr>clock_reads := 2, calls := [FetchProfile ''at-new''],
         status_json := Content (Json [(''last_emptied'', ''2026-01-29T15:32:41.000Z''),
                                       (''last_cleaned'', ''2026-01-01T09:00:00.001Z'')]),
         response := no_response
           \<lparr>body := Some (StatusBody [(''last_emptied'', ''2026-01-29T15:32:41.000Z''),
                                      (''last_cleaned'', ''2026-01-01T09:00:00.001Z'')])\<rparr>\<rparr>)"
proof -
  let ?s1 = "new_request (snd (api_status provider logged_in))"
  have a: "api_status provider logged_in =
     (Inr (), logged_in\<lparr>clock_reads := 2, status_json := Content (Json two_keys),
                        response := no_response\<lparr>body := Some (StatusBody two_keys)\<rparr>\<rparr>)"
    by (simp add: api_status_def await_def status_read_NotFound set_body_def logged_in_def
        fresh_def provider_def two_keys_def)
  have c: "tokens_cookie ?s1 = Some (Json new_tokens)"
    unfolding a by (simp add: new_request_def logged_in_def fresh_def)
  have i: "\<not> invalid provider (calls ?s1) (accessToken new_tokens)"
    by (simp add: invalid_def provider_def new_tokens_def)
  have g: "getName provider ?s1 = (Inr (Some ada), ?s1\<lparr>calls := [FetchProfile ''at-new'']\<rparr>)"
    using getName_first_answer [OF c i] unfolding a
    by (simp add: fetchRcApi_cases invalid_def provider_def new_tokens_def new_request_def
        logged_in_def fresh_def)
  have n: "status_json logged_in = NotFound"
    by (simp add: logged_in_def fresh_def)
  have f: "status_json ?s1 = status_json (snd (api_status provider logged_in))"
    by (simp add: new_request_def)
  show ?thesis
    using fresh_deployment [OF n refl f g refl] unfolding a
    by (simp add: new_request_def logged_in_def fresh_def provider_def two_keys_def
        update_timestamp_def JSON_stringify_def)
qed

end
